theory Spec2Isabelle
  imports Main
begin

section \<open>Python values used by the plugins\<close>

text \<open>
  Exceptions are values. The code distinguishes \<open>ApiError\<close> (caught by name in the
  constructors of \<open>Role\<close> and \<open>User\<close>) from every other exception (caught as
  \<open>Exception\<close> around the remote calls); each carries the text that \<open>str(e)\<close> gives.
\<close>

datatype exn = ApiError string | Exception string

fun str_exn :: "exn \<Rightarrow> string" where
  "str_exn (ApiError m) = m"
| "str_exn (Exception m) = m"

text \<open>Decimal rendering of a Python int, as an f-string or \<open>str\<close> produces it.\<close>

fun str_nat :: "nat \<Rightarrow> string" where
  "str_nat n =
     (if n < 10 then [''0123456789'' ! n]
      else str_nat (n div 10) @ [''0123456789'' ! (n mod 10)])"

declare str_nat.simps [simp del]

definition str_int :: "int \<Rightarrow> string" where
  "str_int i = (if i < 0 then ''-'' @ str_nat (nat (- i)) else str_nat (nat i))"

section \<open>api.py: the version compatibility check\<close>

text \<open>
  The dict built by \<open>Api.check_version_compatibility\<close>, with its four keys.
\<close>

record compat_result =
  client_version :: int
  server_version :: int
  compatible :: bool
  message :: string

text \<open>
  The body of \<open>Api.check_version_compatibility\<close> from the point where both major
  versions are known (api.py, lines 128 to 165). In the first branch the code stores
  \<open>compatible = False\<close> and the message in the dict and then raises \<open>ApiError\<close> with
  that message, so the dict is never returned there.
\<close>

definition version_compatibility :: "int \<Rightarrow> int \<Rightarrow> exn + compat_result" where
  "version_compatibility client_ver server_ver =
     (let result = \<lparr>client_version = client_ver, server_version = server_ver,
                     compatible = True, message = ''''\<rparr>
      in if client_ver = 9 \<and> server_ver = 8 then
           Inl (ApiError
             (''Incompatible versions: elasticsearch-py '' @ str_int client_ver
              @ ''.x cannot connect to Elasticsearch '' @ str_int server_ver
              @ ''.x. Install 'elasticsearch>=8,<9' or upgrade ''
              @ ''your Elasticsearch server to 9.x first.''))
         else if client_ver = 8 \<and> server_ver = 9 then
           Inr (result\<lparr>message :=
             ''elasticsearch-py '' @ str_int client_ver
             @ ''.x is forward-compatible with Elasticsearch '' @ str_int server_ver
             @ ''.x. Consider upgrading to 'elasticsearch>=9,<10' for full ''
             @ ''ES 9.x feature support.''\<rparr>)
         else if client_ver = server_ver then
           Inr (result\<lparr>message :=
             ''elasticsearch-py '' @ str_int client_ver
             @ ''.x is fully compatible with Elasticsearch '' @ str_int server_ver
             @ ''.x.''\<rparr>)
         else
           Inr (result\<lparr>message :=
             ''elasticsearch-py '' @ str_int client_ver
             @ ''.x with Elasticsearch '' @ str_int server_ver
             @ ''.x - compatibility not verified.''\<rparr>))"


section \<open>The remote directory: the Elasticsearch client\<close>

text \<open>
  The keyword arguments that \<open>User.put\<close> passes to \<open>security.put_user\<close>. The field
  \<open>kw_password\<close> is \<open>None\<close> when the key \<open>password\<close> is not in the kwargs at all.
\<close>

record put_user_kwargs =
  kw_username :: string
  kw_email :: "string option"
  kw_full_name :: "string option"
  kw_enabled :: bool
  kw_roles :: "string list"
  kw_password :: "string option"

text \<open>
  The calls the plugins make on the client. \<open>Get_role None\<close> is \<open>security.get_role()\<close>
  (the listing), \<open>Get_role (Some n)\<close> is \<open>security.get_role(name=n)\<close>; likewise for users.
  \<open>Info\<close> is \<open>client.info()\<close>, the call \<open>Api.get_server_version\<close> makes. The type
  \<open>'i\<close> is that of the \<open>indices\<close> argument, which the code passes on untouched.
\<close>

datatype 'i call =
    Info
  | Get_role "string option"
  | Put_role string "string list option" 'i
  | Delete_role string
  | Get_user "string option"
  | Put_user put_user_kwargs
  | Delete_user string

text \<open>
  The client class \<open>Elasticsearch\<close> is not part of the repository. A client is given by
  what each method answers, as a function of the calls made so far on it (the call being
  answered is the last of the list): either an exception or the part of the response the
  code reads. That is
  \<^item> for \<open>info\<close>, the major version \<open>parse_version(info['version']['number'])\<close>;
  \<^item> for \<open>get_role\<close> and \<open>get_user\<close>, the dict \<open>.raw\<close>, keyed by resource name;
  \<^item> for \<open>put_role\<close>, \<open>res.raw['role']['created'] is True\<close>; for \<open>put_user\<close>,
    \<open>res.raw['created'] is True\<close>;
  \<^item> for \<open>delete_role\<close> and \<open>delete_user\<close>, \<open>res['found'] is True\<close>.
  A role definition is a value of type \<open>'r\<close>, an attribute of a user a value of type
  \<open>'v option\<close> (\<open>None\<close> is Python's \<open>None\<close>, a JSON null); equality on \<open>'r\<close> and
  \<open>'v\<close> stands for Python's \<open>==\<close>. Nothing here fixes how the remote system behaves:
  a listing may name a resource that a later call no longer finds.
\<close>

type_synonym 'v user_data = "string \<rightharpoonup> 'v option"

record ('r, 'v, 'i) elasticsearch =
  info_resp :: "'i call list \<Rightarrow> exn + int"
  get_role_resp :: "'i call list \<Rightarrow> exn + (string \<rightharpoonup> 'r)"
  put_role_resp :: "'i call list \<Rightarrow> exn + bool"
  delete_role_resp :: "'i call list \<Rightarrow> exn + bool"
  get_user_resp :: "'i call list \<Rightarrow> exn + (string \<rightharpoonup> 'v user_data)"
  put_user_resp :: "'i call list \<Rightarrow> exn + bool"
  delete_user_resp :: "'i call list \<Rightarrow> exn + bool"

text \<open>Each method appends its call to the log and answers from the client.\<close>

definition client_info ::
  "('r, 'v, 'i) elasticsearch \<Rightarrow> 'i call list \<Rightarrow> (exn + int) \<times> 'i call list" where
  "client_info es log = (let log' = log @ [Info] in (info_resp es log', log'))"

definition security_get_role ::
  "('r, 'v, 'i) elasticsearch \<Rightarrow> string option \<Rightarrow> 'i call list
    \<Rightarrow> (exn + (string \<rightharpoonup> 'r)) \<times> 'i call list" where
  "security_get_role es name log =
     (let log' = log @ [Get_role name] in (get_role_resp es log', log'))"

definition security_put_role ::
  "('r, 'v, 'i) elasticsearch \<Rightarrow> string \<Rightarrow> string list option \<Rightarrow> 'i \<Rightarrow> 'i call list
    \<Rightarrow> (exn + bool) \<times> 'i call list" where
  "security_put_role es name cl ind log =
     (let log' = log @ [Put_role name cl ind] in (put_role_resp es log', log'))"

definition security_delete_role ::
  "('r, 'v, 'i) elasticsearch \<Rightarrow> string \<Rightarrow> 'i call list \<Rightarrow> (exn + bool) \<times> 'i call list" where
  "security_delete_role es name log =
     (let log' = log @ [Delete_role name] in (delete_role_resp es log', log'))"

definition security_get_user ::
  "('r, 'v, 'i) elasticsearch \<Rightarrow> string option \<Rightarrow> 'i call list
    \<Rightarrow> (exn + (string \<rightharpoonup> 'v user_data)) \<times> 'i call list" where
  "security_get_user es username log =
     (let log' = log @ [Get_user username] in (get_user_resp es log', log'))"

definition security_put_user ::
  "('r, 'v, 'i) elasticsearch \<Rightarrow> put_user_kwargs \<Rightarrow> 'i call list
    \<Rightarrow> (exn + bool) \<times> 'i call list" where
  "security_put_user es kwargs log =
     (let log' = log @ [Put_user kwargs] in (put_user_resp es log', log'))"

definition security_delete_user ::
  "('r, 'v, 'i) elasticsearch \<Rightarrow> string \<Rightarrow> 'i call list \<Rightarrow> (exn + bool) \<times> 'i call list" where
  "security_delete_user es username log =
     (let log' = log @ [Delete_user username] in (delete_user_resp es log', log'))"

text \<open>A call that changes the remote system.\<close>

fun is_mutation :: "'i call \<Rightarrow> bool" where
  "is_mutation (Put_role n c i) = True"
| "is_mutation (Delete_role n) = True"
| "is_mutation (Put_user k) = True"
| "is_mutation (Delete_user n) = True"
| "is_mutation c = False"

subsection \<open>api.py: the server version, the check, the client factory\<close>

definition get_server_version ::
  "('r, 'v, 'i) elasticsearch \<Rightarrow> 'i call list \<Rightarrow> (exn + int) \<times> 'i call list" where
  "get_server_version es log = client_info es log"

text \<open>
  \<open>Api.check_version_compatibility(client)\<close>. The module-level constant
  \<open>ES_CLIENT_VERSION\<close>, which \<open>get_client_version\<close> returns, is the first argument.
\<close>

definition check_version_compatibility ::
  "int \<Rightarrow> ('r, 'v, 'i) elasticsearch \<Rightarrow> 'i call list
    \<Rightarrow> (exn + compat_result) \<times> 'i call list" where
  "check_version_compatibility es_client_version es log =
     (let client_ver = es_client_version in
      case get_server_version es log of
        (Inl e, log') \<Rightarrow> (Inl e, log')
      | (Inr server_ver, log') \<Rightarrow> (version_compatibility client_ver server_ver, log'))"

definition sq :: string where
  "sq = [CHR 0x27]"

definition check_elasticsearch_import :: "bool \<Rightarrow> exn + unit" where
  "check_elasticsearch_import has_elasticsearch =
     (if \<not> has_elasticsearch then
        Inl (ApiError
          (''The 'elasticsearch' Python library is required. ''
           @ ''Install it with: pip install 'elasticsearch>=8,<9' (for ES 8.x) ''
           @ ''or 'elasticsearch>=9,<10' (for ES 9.x)''))
      else Inr ())"

text \<open>
  \<open>Api.new_client_basic_auth\<close>: the import check, then the constructor of the client.
  What the constructor gives for the host, credentials and TLS settings (a client, or an
  exception such as a missing CA file) is the argument \<open>connect\<close>. No call is made on the
  new client here.
\<close>

definition new_client_basic_auth ::
  "bool \<Rightarrow> (exn + ('r, 'v, 'i) elasticsearch) \<Rightarrow> exn + ('r, 'v, 'i) elasticsearch" where
  "new_client_basic_auth has_elasticsearch connect =
     (case check_elasticsearch_import has_elasticsearch of
        Inl e \<Rightarrow> Inl e
      | Inr u \<Rightarrow> connect)"

section \<open>The reconcilers\<close>

text \<open>
  \<open>module.check_mode\<close> and \<open>module._diff\<close> of the Ansible module object.
  \<open>module.fail_json\<close> ends the process, so it is a failure of the invocation; an
  exception nothing catches is the other way an invocation fails.
\<close>

record ansible_module =
  check_mode :: bool
  diff_mode :: bool

datatype failure = Fail_json string | Uncaught exn

text \<open>
  \<open>self.result\<close>: the dict with \<open>changed\<close> and, once set, \<open>msg\<close> and \<open>diff\<close>. The two
  sides of a diff are strings: the empty string or \<open>str\<close> of a value.
\<close>

datatype 'a py_str = Empty_str | Str 'a

record 'd result =
  changed :: bool
  msg :: "string option"
  diff :: "('d py_str \<times> 'd py_str) option"

definition init_result :: "'d result" where
  "init_result = \<lparr>changed = False, msg = None, diff = None\<rparr>"


subsection \<open>module_utils/elasticsearch_role.py\<close>

text \<open>
  The attributes of a \<open>Role\<close> object that its methods read. \<open>state\<close> is the string
  the caller gave; \<open>handle\<close> acts on \<open>'absent'\<close> and \<open>'present'\<close> only.
\<close>

record 'i role =
  role_module :: ansible_module
  role_name :: string
  cluster :: "string list option"
  indices :: 'i
  role_state :: string

definition role_get_all ::
  "('r, 'v, 'i) elasticsearch \<Rightarrow> 'i role \<Rightarrow> 'i call list
    \<Rightarrow> (exn + (string \<rightharpoonup> 'r)) \<times> 'i call list" where
  "role_get_all es self log = security_get_role es None log"

definition role_get ::
  "('r, 'v, 'i) elasticsearch \<Rightarrow> 'i role \<Rightarrow> 'i call list
    \<Rightarrow> (exn + (string \<rightharpoonup> 'r)) \<times> 'i call list" where
  "role_get es self log = security_get_role es (Some (role_name self)) log"

definition role_put ::
  "('r, 'v, 'i) elasticsearch \<Rightarrow> 'i role \<Rightarrow> 'i call list \<Rightarrow> (exn + bool) \<times> 'i call list" where
  "role_put es self log =
     security_put_role es (role_name self) (cluster self) (indices self) log"

definition role_delete ::
  "('r, 'v, 'i) elasticsearch \<Rightarrow> 'i role \<Rightarrow> 'i call list \<Rightarrow> (exn + bool) \<times> 'i call list" where
  "role_delete es self log = security_delete_role es (role_name self) log"

text \<open>
  \<open>Role.handle_absent\<close>. The listing and the delete sit in \<open>try\<close> blocks whose handler
  calls \<open>fail_json\<close>.
\<close>

definition role_handle_absent ::
  "('r, 'v, 'i) elasticsearch \<Rightarrow> 'i role \<Rightarrow> 'i call list
    \<Rightarrow> (failure + (string \<rightharpoonup> 'r) result) \<times> 'i call list" where
  "role_handle_absent es self log =
     (case role_get_all es self log of
        (Inl e, log1) \<Rightarrow> (Inl (Fail_json (''Failed to get roles: '' @ str_exn e)), log1)
      | (Inr all_roles, log1) \<Rightarrow>
          if role_name self \<notin> dom all_roles then (Inr init_result, log1)
          else if check_mode (role_module self) then
            (Inr (init_result\<lparr>changed := True,
                              msg := Some (role_name self @ '' would be deleted'')\<rparr>), log1)
          else
            (case role_delete es self log1 of
               (Inl e, log2) \<Rightarrow>
                 (Inl (Fail_json (''Failed to delete role '' @ sq @ role_name self @ sq
                                  @ '': '' @ str_exn e)), log2)
             | (Inr found, log2) \<Rightarrow>
                 if found then
                   (Inr (init_result\<lparr>changed := True,
                                     msg := Some (role_name self @ '' has been deleted'')\<rparr>), log2)
                 else (Inr init_result, log2)))"

text \<open>
  The pre-fetch of \<open>handle_present\<close>: \<open>self.get()\<close> when the name is in the listing,
  else \<open>None\<close>. It is outside every \<open>try\<close>, so its exception is not caught.
\<close>

definition role_pre_fetch ::
  "('r, 'v, 'i) elasticsearch \<Rightarrow> 'i role \<Rightarrow> (string \<rightharpoonup> 'r) \<Rightarrow> 'i call list
    \<Rightarrow> (exn + (string \<rightharpoonup> 'r) option) \<times> 'i call list" where
  "role_pre_fetch es self all_roles log =
     (if role_name self \<in> dom all_roles then
        (case role_get es self log of
           (Inl e, log') \<Rightarrow> (Inl e, log')
         | (Inr pre_role, log') \<Rightarrow> (Inr (Some pre_role), log'))
      else (Inr None, log))"

text \<open>\<open>Role.handle_present\<close> from the \<open>put\<close> on (lines 93 to 118).\<close>

definition role_put_and_compare ::
  "('r, 'v, 'i) elasticsearch \<Rightarrow> 'i role \<Rightarrow> (string \<rightharpoonup> 'r) option \<Rightarrow> 'i call list
    \<Rightarrow> (failure + (string \<rightharpoonup> 'r) result) \<times> 'i call list" where
  "role_put_and_compare es self pre_role log =
     (case role_put es self log of
        (Inl e, log1) \<Rightarrow>
          (Inl (Fail_json (''Failed to create/update role '' @ sq @ role_name self @ sq
                           @ '': '' @ str_exn e)), log1)
      | (Inr created, log1) \<Rightarrow>
          if created then
            (let res = init_result\<lparr>changed := True,
                                   msg := Some (role_name self @ '' has been created'')\<rparr>
             in if diff_mode (role_module self) then
                  (case role_get es self log1 of
                     (Inl e, log2) \<Rightarrow> (Inl (Uncaught e), log2)
                   | (Inr post_role, log2) \<Rightarrow>
                       (Inr (res\<lparr>diff := Some (Empty_str, Str post_role)\<rparr>), log2))
                else (Inr res, log1))
          else
            (case pre_role of
               None \<Rightarrow> (Inr init_result, log1)
             | Some pre \<Rightarrow>
                 (case role_get es self log1 of
                    (Inl e, log2) \<Rightarrow> (Inl (Uncaught e), log2)
                  | (Inr post_role, log2) \<Rightarrow>
                      if pre \<noteq> post_role then
                        (let res = init_result\<lparr>changed := True,
                                     msg := Some (role_name self @ '' has been updated'')\<rparr>
                         in if diff_mode (role_module self) then
                              (Inr (res\<lparr>diff := Some (Str pre, Str post_role)\<rparr>), log2)
                            else (Inr res, log2))
                      else (Inr init_result, log2))))"

text \<open>\<open>Role.handle_present\<close>.\<close>

definition role_handle_present ::
  "('r, 'v, 'i) elasticsearch \<Rightarrow> 'i role \<Rightarrow> 'i call list
    \<Rightarrow> (failure + (string \<rightharpoonup> 'r) result) \<times> 'i call list" where
  "role_handle_present es self log =
     (case role_get_all es self log of
        (Inl e, log1) \<Rightarrow> (Inl (Fail_json (''Failed to get roles: '' @ str_exn e)), log1)
      | (Inr all_roles, log1) \<Rightarrow>
          (case role_pre_fetch es self all_roles log1 of
             (Inl e, log2) \<Rightarrow> (Inl (Uncaught e), log2)
           | (Inr pre_role, log2) \<Rightarrow>
               if check_mode (role_module self) then
                 (Inr (init_result\<lparr>changed := True,
                         msg := Some (if pre_role = None
                                      then role_name self @ '' would be created''
                                      else role_name self @ '' would be updated'')\<rparr>), log2)
               else role_put_and_compare es self pre_role log2))"

definition role_handle ::
  "('r, 'v, 'i) elasticsearch \<Rightarrow> 'i role \<Rightarrow> 'i call list
    \<Rightarrow> (failure + (string \<rightharpoonup> 'r) result) \<times> 'i call list" where
  "role_handle es self log =
     (if role_state self = ''absent'' then role_handle_absent es self log
      else if role_state self = ''present'' then role_handle_present es self log
      else (Inr init_result, log))"

text \<open>
  \<open>Role.__init__\<close> followed by \<open>return_result\<close>, which is what \<open>run_module\<close> does: the
  client is made, an \<open>ApiError\<close> from the factory goes to \<open>fail_json\<close>, and \<open>handle\<close>
  runs on the new client, on which no call has been made yet.
\<close>

definition role_init ::
  "bool \<Rightarrow> (exn + ('r, 'v, 'i) elasticsearch) \<Rightarrow> 'i role
    \<Rightarrow> (failure + (string \<rightharpoonup> 'r) result) \<times> 'i call list" where
  "role_init has_elasticsearch connect self =
     (case new_client_basic_auth has_elasticsearch connect of
        Inl (ApiError m) \<Rightarrow> (Inl (Fail_json m), [])
      | Inl (Exception m) \<Rightarrow> (Inl (Uncaught (Exception m)), [])
      | Inr client \<Rightarrow> role_handle client self [])"


subsection \<open>module_utils/elasticsearch_user.py\<close>

text \<open>
  The attributes of a \<open>User\<close> object. The module declares \<open>password\<close> and \<open>roles\<close>
  required and \<open>enabled\<close> a bool with a default, so they are never \<open>None\<close>;
  \<open>fullname\<close> and \<open>email\<close> are optional.
\<close>

record user =
  user_module :: ansible_module
  user_name :: string
  full_name :: "string option"
  password :: string
  email :: "string option"
  roles :: "string list"
  enabled :: bool
  user_state :: string
  update_password :: string

definition user_get_all ::
  "('r, 'v, 'i) elasticsearch \<Rightarrow> user \<Rightarrow> 'i call list
    \<Rightarrow> (exn + (string \<rightharpoonup> 'v user_data)) \<times> 'i call list" where
  "user_get_all es self log = security_get_user es None log"

definition user_get ::
  "('r, 'v, 'i) elasticsearch \<Rightarrow> user \<Rightarrow> 'i call list
    \<Rightarrow> (exn + (string \<rightharpoonup> 'v user_data)) \<times> 'i call list" where
  "user_get es self log = security_get_user es (Some (user_name self)) log"

text \<open>\<open>User.put(password)\<close>: the key \<open>password\<close> is added only when it is not \<open>None\<close>.\<close>

definition user_put ::
  "('r, 'v, 'i) elasticsearch \<Rightarrow> user \<Rightarrow> string option \<Rightarrow> 'i call list
    \<Rightarrow> (exn + bool) \<times> 'i call list" where
  "user_put es self pw log =
     (let kwargs = \<lparr>kw_username = user_name self, kw_email = email self,
                     kw_full_name = full_name self, kw_enabled = enabled self,
                     kw_roles = roles self, kw_password = None\<rparr>;
          kwargs = (if pw \<noteq> None then kwargs\<lparr>kw_password := pw\<rparr> else kwargs)
      in security_put_user es kwargs log)"

definition user_delete ::
  "('r, 'v, 'i) elasticsearch \<Rightarrow> user \<Rightarrow> 'i call list \<Rightarrow> (exn + bool) \<times> 'i call list" where
  "user_delete es self log = security_delete_user es (user_name self) log"

text \<open>\<open>User.handle_absent\<close>.\<close>

definition user_handle_absent ::
  "('r, 'v, 'i) elasticsearch \<Rightarrow> user \<Rightarrow> 'i call list
    \<Rightarrow> (failure + 'd result) \<times> 'i call list" where
  "user_handle_absent es self log =
     (case user_get_all es self log of
        (Inl e, log1) \<Rightarrow> (Inl (Fail_json (''Failed to get users: '' @ str_exn e)), log1)
      | (Inr all_users, log1) \<Rightarrow>
          if user_name self \<notin> dom all_users then (Inr init_result, log1)
          else if check_mode (user_module self) then
            (Inr (init_result\<lparr>changed := True,
                              msg := Some (user_name self @ '' would be deleted'')\<rparr>), log1)
          else
            (case user_delete es self log1 of
               (Inl e, log2) \<Rightarrow>
                 (Inl (Fail_json (''Failed to delete user '' @ sq @ user_name self @ sq
                                  @ '': '' @ str_exn e)), log2)
             | (Inr found, log2) \<Rightarrow>
                 if found then
                   (Inr (init_result\<lparr>changed := True,
                                     msg := Some (user_name self @ '' has been deleted'')\<rparr>), log2)
                 else (Inr init_result, log2)))"

text \<open>
  What \<open>str\<close> is applied to for the diff of a user: the whole response of \<open>get\<close> after a
  creation, the entry of the user before and after an update.
\<close>

datatype 'v user_shown = Raw "string \<rightharpoonup> 'v user_data" | Entry "'v user_data"

text \<open>\<open>d.get(k)\<close>, with \<open>None\<close> for a missing key, and \<open>raw.get(name, {})\<close>.\<close>

definition dict_get :: "'v user_data \<Rightarrow> string \<Rightarrow> 'v option" where
  "dict_get d k = (case d k of None \<Rightarrow> None | Some v \<Rightarrow> v)"

definition raw_get :: "(string \<rightharpoonup> 'v user_data) \<Rightarrow> string \<Rightarrow> 'v user_data" where
  "raw_get raw name = (case raw name of None \<Rightarrow> Map.empty | Some d \<Rightarrow> d)"

definition compare_keys :: "string list" where
  "compare_keys = [''roles'', ''full_name'', ''email'', ''enabled'', ''metadata'']"

text \<open>
  The dict comprehension \<open>{k: data.get(k) for k in compare_keys}\<close>, as the list of its
  items. Two such dicts have the same keys in the same order, so they are equal exactly
  when these lists are.
\<close>

definition compare_dict :: "'v user_data \<Rightarrow> (string \<times> 'v option) list" where
  "compare_dict data = map (\<lambda>k. (k, dict_get data k)) compare_keys"

text \<open>The pre-fetch of \<open>User.handle_present\<close>, outside every \<open>try\<close>.\<close>

definition user_pre_fetch ::
  "('r, 'v, 'i) elasticsearch \<Rightarrow> user \<Rightarrow> bool \<Rightarrow> 'i call list
    \<Rightarrow> (exn + (string \<rightharpoonup> 'v user_data) option) \<times> 'i call list" where
  "user_pre_fetch es self user_exists log =
     (if user_exists then
        (case user_get es self log of
           (Inl e, log') \<Rightarrow> (Inl e, log')
         | (Inr pre_user, log') \<Rightarrow> (Inr (Some pre_user), log'))
      else (Inr None, log))"

text \<open>\<open>User.handle_present\<close> from the \<open>put\<close> on (lines 99 to 136).\<close>

definition user_put_and_compare ::
  "('r, 'v, 'i) elasticsearch \<Rightarrow> user \<Rightarrow> bool \<Rightarrow> (string \<rightharpoonup> 'v user_data) option
    \<Rightarrow> 'i call list \<Rightarrow> (failure + 'v user_shown result) \<times> 'i call list" where
  "user_put_and_compare es self user_exists pre_user log =
     (let send_password =
            (if update_password self = ''on_create'' \<and> user_exists then None
             else Some (password self))
      in case user_put es self send_password log of
        (Inl e, log1) \<Rightarrow>
          (Inl (Fail_json (''Failed to create/update user '' @ sq @ user_name self @ sq
                           @ '': '' @ str_exn e)), log1)
      | (Inr created, log1) \<Rightarrow>
          if created then
            (let res = init_result\<lparr>changed := True,
                                   msg := Some (user_name self @ '' has been created'')\<rparr>
             in if diff_mode (user_module self) then
                  (case user_get es self log1 of
                     (Inl e, log2) \<Rightarrow> (Inl (Uncaught e), log2)
                   | (Inr post_user, log2) \<Rightarrow>
                       (Inr (res\<lparr>diff := Some (Empty_str, Str (Raw post_user))\<rparr>), log2))
                else (Inr res, log1))
          else
            (case pre_user of
               None \<Rightarrow> (Inr init_result, log1)
             | Some pre \<Rightarrow>
                 (case user_get es self log1 of
                    (Inl e, log2) \<Rightarrow> (Inl (Uncaught e), log2)
                  | (Inr post_user, log2) \<Rightarrow>
                      (let pre_data = raw_get pre (user_name self);
                           post_data = raw_get post_user (user_name self);
                           pre_compare = compare_dict pre_data;
                           post_compare = compare_dict post_data
                       in if pre_compare \<noteq> post_compare then
                            (let res = init_result\<lparr>changed := True,
                                         msg := Some (user_name self @ '' has been updated'')\<rparr>
                             in if diff_mode (user_module self) then
                                  (Inr (res\<lparr>diff := Some (Str (Entry pre_data),
                                                            Str (Entry post_data))\<rparr>), log2)
                                else (Inr res, log2))
                          else (Inr init_result, log2)))))"

text \<open>\<open>User.handle_present\<close>.\<close>

definition user_handle_present ::
  "('r, 'v, 'i) elasticsearch \<Rightarrow> user \<Rightarrow> 'i call list
    \<Rightarrow> (failure + 'v user_shown result) \<times> 'i call list" where
  "user_handle_present es self log =
     (case user_get_all es self log of
        (Inl e, log1) \<Rightarrow> (Inl (Fail_json (''Failed to get users: '' @ str_exn e)), log1)
      | (Inr all_users, log1) \<Rightarrow>
          (let user_exists = (user_name self \<in> dom all_users)
           in case user_pre_fetch es self user_exists log1 of
             (Inl e, log2) \<Rightarrow> (Inl (Uncaught e), log2)
           | (Inr pre_user, log2) \<Rightarrow>
               if check_mode (user_module self) then
                 (Inr (init_result\<lparr>changed := True,
                         msg := Some (if pre_user = None
                                      then user_name self @ '' would be created''
                                      else user_name self @ '' would be updated'')\<rparr>), log2)
               else user_put_and_compare es self user_exists pre_user log2))"

definition user_handle ::
  "('r, 'v, 'i) elasticsearch \<Rightarrow> user \<Rightarrow> 'i call list
    \<Rightarrow> (failure + 'v user_shown result) \<times> 'i call list" where
  "user_handle es self log =
     (if user_state self = ''absent'' then user_handle_absent es self log
      else if user_state self = ''present'' then user_handle_present es self log
      else (Inr init_result, log))"

text \<open>\<open>User.__init__\<close> followed by \<open>return_result\<close>.\<close>

definition user_init ::
  "bool \<Rightarrow> (exn + ('r, 'v, 'i) elasticsearch) \<Rightarrow> user
    \<Rightarrow> (failure + 'v user_shown result) \<times> 'i call list" where
  "user_init has_elasticsearch connect self =
     (case new_client_basic_auth has_elasticsearch connect of
        Inl (ApiError m) \<Rightarrow> (Inl (Fail_json m), [])
      | Inl (Exception m) \<Rightarrow> (Inl (Uncaught (Exception m)), [])
      | Inr client \<Rightarrow> user_handle client self [])"

section \<open>Concrete scenarios\<close>

text \<open>
  A remote system with one role \<open>r1\<close> and one user \<open>u1\<close>, used to run the reconcilers on
  concrete inputs. Attribute values are strings, lists of strings and booleans. Reads
  answer with the old definition until a put or delete has been made on the client and
  with the new one afterwards; a put answers \<open>created = False\<close>, a delete
  \<open>found = True\<close>, and the server reports major version 8.
\<close>

datatype jv = Jstr string | Jlist "string list" | Jbool bool

definition demo_pre_entry :: "jv user_data" where
  "demo_pre_entry =
     [''username'' \<mapsto> Some (Jstr ''u1''), ''roles'' \<mapsto> Some (Jlist [''a'']),
      ''full_name'' \<mapsto> None, ''enabled'' \<mapsto> Some (Jbool True)]"

definition demo_post_entry :: "jv user_data" where
  "demo_post_entry =
     [''username'' \<mapsto> Some (Jstr ''u1''), ''roles'' \<mapsto> Some (Jlist [''b'']),
      ''full_name'' \<mapsto> None, ''enabled'' \<mapsto> Some (Jbool True)]"

definition demo_es :: "(string list, jv, string list) elasticsearch" where
  "demo_es =
     \<lparr>info_resp = (\<lambda>log. Inr 8),
      get_role_resp =
        (\<lambda>log. Inr [''r1'' \<mapsto> (if list_ex is_mutation log then [''all''] else [''monitor''])]),
      put_role_resp = (\<lambda>log. Inr False),
      delete_role_resp = (\<lambda>log. Inr True),
      get_user_resp =
        (\<lambda>log. Inr [''u1'' \<mapsto> (if list_ex is_mutation log then demo_post_entry
                                 else demo_pre_entry)]),
      put_user_resp = (\<lambda>log. Inr False),
      delete_user_resp = (\<lambda>log. Inr True)\<rparr>"

definition demo_role :: "string list role" where
  "demo_role =
     \<lparr>role_module = \<lparr>check_mode = False, diff_mode = True\<rparr>,
      role_name = ''r1'', cluster = Some [''all''], indices = [], role_state = ''present''\<rparr>"

definition demo_user :: user where
  "demo_user =
     \<lparr>user_module = \<lparr>check_mode = False, diff_mode = True\<rparr>,
      user_name = ''u1'', full_name = None, password = ''p2'', email = None,
      roles = [''b''], enabled = True, user_state = ''present'',
      update_password = ''on_create''\<rparr>"

definition dry :: ansible_module where
  "dry = \<lparr>check_mode = True, diff_mode = False\<rparr>"

text \<open>
  The same remote system, except that the entry of \<open>u1\<close> carries a credential hash that
  differs on every read after a write; nothing else changes.
\<close>

definition demo_es_rehash :: "(string list, jv, string list) elasticsearch" where
  "demo_es_rehash =
     demo_es\<lparr>get_user_resp :=
       (\<lambda>log. Inr [''u1'' \<mapsto>
          (if list_ex is_mutation log
           then demo_pre_entry(''password_hash'' \<mapsto> Some (Jstr ''h2''))
           else demo_pre_entry(''password_hash'' \<mapsto> Some (Jstr ''h1'')))])\<rparr>"

section \<open>Unfolding the model\<close>

lemmas client_defs =
  client_info_def security_get_role_def security_put_role_def security_delete_role_def
  security_get_user_def security_put_user_def security_delete_user_def

lemmas role_defs =
  role_handle_def role_handle_absent_def role_handle_present_def role_pre_fetch_def
  role_put_and_compare_def role_get_all_def role_get_def role_put_def role_delete_def

lemmas user_defs =
  user_handle_def user_handle_absent_def user_handle_present_def user_pre_fetch_def
  user_put_and_compare_def user_get_all_def user_get_def user_put_def user_delete_def

lemmas demo_defs = demo_es_def demo_role_def demo_user_def dry_def

lemma str_int_digits: "str_int 7 = ''7''" "str_int 8 = ''8''" "str_int 9 = ''9''"
  by (simp_all add: str_int_def str_nat.simps)

section \<open>The concrete scenarios, evaluated\<close>

lemma demo_facts:
  "role_module demo_role = \<lparr>check_mode = False, diff_mode = True\<rparr>"
  "role_name demo_role = ''r1''" "cluster demo_role = Some [''all'']"
  "indices demo_role = []" "role_state demo_role = ''present''"
  "user_module demo_user = \<lparr>check_mode = False, diff_mode = True\<rparr>"
  "user_name demo_user = ''u1''" "full_name demo_user = None" "password demo_user = ''p2''"
  "email demo_user = None" "roles demo_user = [''b'']" "enabled demo_user = True"
  "user_state demo_user = ''present''" "update_password demo_user = ''on_create''"
  "info_resp demo_es = (\<lambda>log. Inr 8)"
  "get_role_resp demo_es =
     (\<lambda>log. Inr [''r1'' \<mapsto> (if list_ex is_mutation log then [''all''] else [''monitor''])])"
  "put_role_resp demo_es = (\<lambda>log. Inr False)"
  "delete_role_resp demo_es = (\<lambda>log. Inr True)"
  "get_user_resp demo_es =
     (\<lambda>log. Inr [''u1'' \<mapsto> (if list_ex is_mutation log then demo_post_entry
                              else demo_pre_entry)])"
  "put_user_resp demo_es = (\<lambda>log. Inr False)"
  "delete_user_resp demo_es = (\<lambda>log. Inr True)"
  by (simp_all add: demo_es_def demo_role_def demo_user_def)

lemma demo_rehash_facts:
  "get_user_resp demo_es_rehash =
     (\<lambda>log. Inr [''u1'' \<mapsto>
          (if list_ex is_mutation log
           then demo_pre_entry(''password_hash'' \<mapsto> Some (Jstr ''h2''))
           else demo_pre_entry(''password_hash'' \<mapsto> Some (Jstr ''h1'')))])"
  "put_user_resp demo_es_rehash = (\<lambda>log. Inr False)"
  by (simp_all add: demo_es_rehash_def demo_facts)

lemma demo_entry_values:
  "dict_get demo_pre_entry ''roles'' = Some (Jlist [''a''])"
  "dict_get demo_post_entry ''roles'' = Some (Jlist [''b''])"
  "dict_get (demo_pre_entry(''password_hash'' \<mapsto> h)) k =
     (if k = ''password_hash'' then h else dict_get demo_pre_entry k)"
  by (simp_all add: dict_get_def demo_pre_entry_def demo_post_entry_def)

lemma demo_entries_differ:
  "compare_dict demo_pre_entry \<noteq> compare_dict demo_post_entry"
  by (simp add: demo_pre_entry_def demo_post_entry_def compare_dict_def compare_keys_def
      dict_get_def)

lemma demo_username:
  "demo_pre_entry ''username'' = Some (Some (Jstr ''u1''))"
  "map_of (compare_dict demo_pre_entry) ''username'' = None"
  by (simp_all add: demo_pre_entry_def compare_dict_def compare_keys_def)

lemma demo_user_run:
  "user_handle demo_es demo_user [] =
     (Inr \<lparr>changed = True, msg = Some ''u1 has been updated'',
           diff = Some (Str (Entry demo_pre_entry), Str (Entry demo_post_entry))\<rparr>,
      [Get_user None, Get_user (Some ''u1''),
       Put_user \<lparr>kw_username = ''u1'', kw_email = None, kw_full_name = None,
                 kw_enabled = True, kw_roles = [''b''], kw_password = None\<rparr>,
       Get_user (Some ''u1'')])"
  using demo_entries_differ
  by (simp add: user_defs client_defs Let_def init_result_def demo_defs raw_get_def)

section \<open>Dry run\<close>

lemma role_handle_dry_log:
  assumes "check_mode (role_module self)"
  shows "\<exists>cs. snd (role_handle es self log) = log @ cs \<and> (\<forall>c \<in> set cs. \<not> is_mutation c)"
  using assms
  by (auto simp add: role_defs client_defs Let_def split: sum.splits)

lemma user_handle_dry_log:
  assumes "check_mode (user_module self)"
  shows "\<exists>cs. snd (user_handle es self log) = log @ cs \<and> (\<forall>c \<in> set cs. \<not> is_mutation c)"
  using assms
  by (auto simp add: user_defs client_defs Let_def split: sum.splits)

lemma role_init_dry_log:
  assumes "check_mode (role_module self)"
  shows "\<forall>c \<in> set (snd (role_init h conn self)). \<not> is_mutation c"
proof (cases "new_client_basic_auth h conn")
  case (Inl e)
  then show ?thesis by (cases e) (simp_all add: role_init_def)
next
  case (Inr client)
  from role_handle_dry_log [OF assms, of client "[]"]
  show ?thesis using Inr by (auto simp add: role_init_def)
qed

lemma user_init_dry_log:
  assumes "check_mode (user_module self)"
  shows "\<forall>c \<in> set (snd (user_init h conn self)). \<not> is_mutation c"
proof (cases "new_client_basic_auth h conn")
  case (Inl e)
  then show ?thesis by (cases e) (simp_all add: user_init_def)
next
  case (Inr client)
  from user_handle_dry_log [OF assms, of client "[]"]
  show ?thesis using Inr by (auto simp add: user_init_def)
qed

text \<open>
  Claim C1. With check mode on, no invocation of either reconciler issues a put or a
  delete, whatever the state asked for and whatever the client factory and the remote
  system do. The result is \<open>changed = True\<close> with the message \<open>would be deleted\<close>
  (state absent, name in the listing), \<open>would be created\<close> (state present, name not in
  the listing) or \<open>would be updated\<close> (state present, name in the listing and fetched).
  The listing and the pre-fetch are still made: the log shows them, a failing listing
  ends the invocation through \<open>fail_json\<close>, and a failing pre-fetch ends it with the
  exception.
\<close>

theorem dry_run_issues_no_mutation:
  assumes "check_mode (role_module rs)" and "check_mode (user_module us)"
  shows
    "(\<forall>c \<in> set (snd (role_init h conn rs)). \<not> is_mutation c) \<and>
     (\<forall>c \<in> set (snd (user_init h conn us)). \<not> is_mutation c) \<and>
     (role_state rs = ''absent'' \<and> get_role_resp es (log @ [Get_role None]) = Inr all_roles
        \<and> role_name rs \<in> dom all_roles \<longrightarrow>
      role_handle es rs log =
        (Inr \<lparr>changed = True, msg = Some (role_name rs @ '' would be deleted''), diff = None\<rparr>,
         log @ [Get_role None])) \<and>
     (role_state rs = ''present'' \<and> get_role_resp es (log @ [Get_role None]) = Inr all_roles
        \<and> role_name rs \<notin> dom all_roles \<longrightarrow>
      role_handle es rs log =
        (Inr \<lparr>changed = True, msg = Some (role_name rs @ '' would be created''), diff = None\<rparr>,
         log @ [Get_role None])) \<and>
     (role_state rs = ''present'' \<and> get_role_resp es (log @ [Get_role None]) = Inr all_roles
        \<and> role_name rs \<in> dom all_roles
        \<and> get_role_resp es (log @ [Get_role None, Get_role (Some (role_name rs))]) = Inr pre_role \<longrightarrow>
      role_handle es rs log =
        (Inr \<lparr>changed = True, msg = Some (role_name rs @ '' would be updated''), diff = None\<rparr>,
         log @ [Get_role None, Get_role (Some (role_name rs))])) \<and>
     ((role_state rs = ''absent'' \<or> role_state rs = ''present'')
        \<and> get_role_resp es (log @ [Get_role None]) = Inl e \<longrightarrow>
      role_handle es rs log =
        (Inl (Fail_json (''Failed to get roles: '' @ str_exn e)), log @ [Get_role None])) \<and>
     (role_state rs = ''present'' \<and> get_role_resp es (log @ [Get_role None]) = Inr all_roles
        \<and> role_name rs \<in> dom all_roles
        \<and> get_role_resp es (log @ [Get_role None, Get_role (Some (role_name rs))]) = Inl e \<longrightarrow>
      role_handle es rs log =
        (Inl (Uncaught e), log @ [Get_role None, Get_role (Some (role_name rs))])) \<and>
     (user_state us = ''absent'' \<and> get_user_resp es (log @ [Get_user None]) = Inr all_users
        \<and> user_name us \<in> dom all_users \<longrightarrow>
      user_handle es us log =
        (Inr \<lparr>changed = True, msg = Some (user_name us @ '' would be deleted''), diff = None\<rparr>,
         log @ [Get_user None])) \<and>
     (user_state us = ''present'' \<and> get_user_resp es (log @ [Get_user None]) = Inr all_users
        \<and> user_name us \<notin> dom all_users \<longrightarrow>
      user_handle es us log =
        (Inr \<lparr>changed = True, msg = Some (user_name us @ '' would be created''), diff = None\<rparr>,
         log @ [Get_user None])) \<and>
     (user_state us = ''present'' \<and> get_user_resp es (log @ [Get_user None]) = Inr all_users
        \<and> user_name us \<in> dom all_users
        \<and> get_user_resp es (log @ [Get_user None, Get_user (Some (user_name us))]) = Inr pre_user \<longrightarrow>
      user_handle es us log =
        (Inr \<lparr>changed = True, msg = Some (user_name us @ '' would be updated''), diff = None\<rparr>,
         log @ [Get_user None, Get_user (Some (user_name us))])) \<and>
     ((user_state us = ''absent'' \<or> user_state us = ''present'')
        \<and> get_user_resp es (log @ [Get_user None]) = Inl e \<longrightarrow>
      user_handle es us log =
        (Inl (Fail_json (''Failed to get users: '' @ str_exn e)), log @ [Get_user None])) \<and>
     (user_state us = ''present'' \<and> get_user_resp es (log @ [Get_user None]) = Inr all_users
        \<and> user_name us \<in> dom all_users
        \<and> get_user_resp es (log @ [Get_user None, Get_user (Some (user_name us))]) = Inl e \<longrightarrow>
      user_handle es us log =
        (Inl (Uncaught e), log @ [Get_user None, Get_user (Some (user_name us))]))"
  using assms role_init_dry_log [of rs h conn] user_init_dry_log [of us h conn]
  by (intro conjI impI; (elim conjE)?;
      auto simp add: role_defs user_defs client_defs Let_def init_result_def)

text \<open>
  Dry runs on the concrete system, where role \<open>r1\<close> and user \<open>u1\<close> exist: state
  present lists, fetches and reports \<open>would be updated\<close>; state absent reports
  \<open>would be deleted\<close> after the listing; a user that is not listed would be created; a
  listing that times out fails the run; and no log holds a put or a delete.
\<close>

theorem dry_run_issues_no_mutation_witness:
  "role_handle demo_es (demo_role\<lparr>role_module := dry\<rparr>) [] =
     (Inr \<lparr>changed = True, msg = Some ''r1 would be updated'', diff = None\<rparr>,
      [Get_role None, Get_role (Some ''r1'')]) \<and>
   role_handle demo_es (demo_role\<lparr>role_module := dry, role_state := ''absent''\<rparr>) [] =
     (Inr \<lparr>changed = True, msg = Some ''r1 would be deleted'', diff = None\<rparr>,
      [Get_role None]) \<and>
   role_handle (demo_es\<lparr>get_role_resp := (\<lambda>log. Inl (Exception ''timeout''))\<rparr>)
       (demo_role\<lparr>role_module := dry\<rparr>) [] =
     (Inl (Fail_json ''Failed to get roles: timeout''), [Get_role None]) \<and>
   user_handle demo_es (demo_user\<lparr>user_module := dry\<rparr>) [] =
     (Inr \<lparr>changed = True, msg = Some ''u1 would be updated'', diff = None\<rparr>,
      [Get_user None, Get_user (Some ''u1'')]) \<and>
   user_handle demo_es (demo_user\<lparr>user_module := dry, user_name := ''u2''\<rparr>) [] =
     (Inr \<lparr>changed = True, msg = Some ''u2 would be created'', diff = None\<rparr>,
      [Get_user None]) \<and>
   \<not> list_ex is_mutation
       (snd (role_init True (Inr demo_es) (demo_role\<lparr>role_module := dry\<rparr>))) \<and>
   \<not> list_ex is_mutation
       (snd (user_init True (Inr demo_es) (demo_user\<lparr>user_module := dry\<rparr>)))"
proof -
  have d: "check_mode dry" by (simp add: dry_def)
  have r: "check_mode (role_module (demo_role\<lparr>role_module := dry\<rparr>))"
    "check_mode (role_module (demo_role\<lparr>role_module := dry, role_state := ''absent''\<rparr>))"
    by (simp_all add: d)
  have u: "check_mode (user_module (demo_user\<lparr>user_module := dry\<rparr>))"
    "check_mode (user_module (demo_user\<lparr>user_module := dry, user_name := ''u2''\<rparr>))"
    by (simp_all add: d)
  note a = dry_run_issues_no_mutation [OF r(1) u(1), where es = demo_es and log = "[]"
      and h = True and conn = "Inr demo_es"
      and all_roles = "[''r1'' \<mapsto> [''monitor'']]" and pre_role = "[''r1'' \<mapsto> [''monitor'']]"
      and all_users = "[''u1'' \<mapsto> demo_pre_entry]" and pre_user = "[''u1'' \<mapsto> demo_pre_entry]"
      and e = "Exception []"]
  note b = dry_run_issues_no_mutation [OF r(2) u(2), where es = demo_es and log = "[]"
      and h = True and conn = "Inr demo_es"
      and all_roles = "[''r1'' \<mapsto> [''monitor'']]" and pre_role = "[''r1'' \<mapsto> [''monitor'']]"
      and all_users = "[''u1'' \<mapsto> demo_pre_entry]" and pre_user = "[''u1'' \<mapsto> demo_pre_entry]"
      and e = "Exception []"]
  note c = dry_run_issues_no_mutation [OF r(1) u(1),
      where es = "demo_es\<lparr>get_role_resp := (\<lambda>log. Inl (Exception ''timeout''))\<rparr>"
      and log = "[]" and h = True and conn = "Inr demo_es"
      and all_roles = "[''r1'' \<mapsto> [''monitor'']]" and pre_role = "[''r1'' \<mapsto> [''monitor'']]"
      and all_users = "[''u1'' \<mapsto> demo_pre_entry]" and pre_user = "[''u1'' \<mapsto> demo_pre_entry]"
      and e = "Exception ''timeout''"]
  have 1: "role_handle demo_es (demo_role\<lparr>role_module := dry\<rparr>) [] =
     (Inr \<lparr>changed = True, msg = Some ''r1 would be updated'', diff = None\<rparr>,
      [Get_role None, Get_role (Some ''r1'')])"
    "user_handle demo_es (demo_user\<lparr>user_module := dry\<rparr>) [] =
     (Inr \<lparr>changed = True, msg = Some ''u1 would be updated'', diff = None\<rparr>,
      [Get_user None, Get_user (Some ''u1'')])"
    "\<not> list_ex is_mutation
       (snd (role_init True (Inr demo_es) (demo_role\<lparr>role_module := dry\<rparr>)))"
    "\<not> list_ex is_mutation
       (snd (user_init True (Inr demo_es) (demo_user\<lparr>user_module := dry\<rparr>)))"
    using a by (simp_all add: demo_facts list_ex_iff)
  have 2: "role_handle demo_es (demo_role\<lparr>role_module := dry, role_state := ''absent''\<rparr>) [] =
     (Inr \<lparr>changed = True, msg = Some ''r1 would be deleted'', diff = None\<rparr>,
      [Get_role None])"
    "user_handle demo_es (demo_user\<lparr>user_module := dry, user_name := ''u2''\<rparr>) [] =
     (Inr \<lparr>changed = True, msg = Some ''u2 would be created'', diff = None\<rparr>,
      [Get_user None])"
    using b by (simp_all add: demo_facts)
  have 3: "role_handle (demo_es\<lparr>get_role_resp := (\<lambda>log. Inl (Exception ''timeout''))\<rparr>)
       (demo_role\<lparr>role_module := dry\<rparr>) [] =
     (Inl (Fail_json ''Failed to get roles: timeout''), [Get_role None])"
    using c by (simp add: demo_facts)
  show ?thesis using 1 2 3 by blast
qed

section \<open>The version pairing\<close>

text \<open>
  Claim C2 says that \<open>check(8,8)\<close> and \<open>check(9,9)\<close> return an empty message. The code
  sets a message in that branch too (\<open>is fully compatible with\<close>), so the dict with the
  empty message is not what it returns.
\<close>

theorem equal_versions_message_counterexample:
  "version_compatibility 8 8 \<noteq>
     Inr \<lparr>client_version = 8, server_version = 8, compatible = True, message = []\<rparr> \<and>
   version_compatibility 9 9 \<noteq>
     Inr \<lparr>client_version = 9, server_version = 9, compatible = True, message = []\<rparr>"
  by (simp add: version_compatibility_def str_int_digits)

text \<open>
  Claim C2, amended. The pairing matrix of the version check: client 9 with server 8
  raises \<open>ApiError\<close>; client 8 with server 9 is compatible, with the advice to upgrade
  the client; equal versions (8 with 8, 9 with 9) are compatible, with the message that
  the client is fully compatible with the server, which is not empty; client 7 with
  server 9 is compatible, with the message that compatibility is not verified.
\<close>

theorem version_pairing_matrix:
  "version_compatibility 9 8 = Inl (ApiError
      (''Incompatible versions: elasticsearch-py 9.x cannot connect to Elasticsearch 8.x. ''
       @ ''Install 'elasticsearch>=8,<9' or upgrade your Elasticsearch server to 9.x first.'')) \<and>
   version_compatibility 8 9 = Inr \<lparr>client_version = 8, server_version = 9, compatible = True,
      message = ''elasticsearch-py 8.x is forward-compatible with Elasticsearch 9.x. ''
        @ ''Consider upgrading to 'elasticsearch>=9,<10' for full ES 9.x feature support.''\<rparr> \<and>
   version_compatibility 8 8 = Inr \<lparr>client_version = 8, server_version = 8, compatible = True,
      message = ''elasticsearch-py 8.x is fully compatible with Elasticsearch 8.x.''\<rparr> \<and>
   version_compatibility 9 9 = Inr \<lparr>client_version = 9, server_version = 9, compatible = True,
      message = ''elasticsearch-py 9.x is fully compatible with Elasticsearch 9.x.''\<rparr> \<and>
   version_compatibility 7 9 = Inr \<lparr>client_version = 7, server_version = 9, compatible = True,
      message = ''elasticsearch-py 7.x with Elasticsearch 9.x - compatibility not verified.''\<rparr>"
  by (simp add: version_compatibility_def str_int_digits)

text \<open>
  Claim C10. Whenever the version check returns, that is whenever the server answers with
  its version and the pair is not client 9 with server 8, the report has
  \<open>compatible = True\<close>, a message that is not empty, and the client and server versions
  it was given. For client 9 with server 8 it raises \<open>ApiError\<close> and returns no report,
  so no returned report has \<open>compatible = False\<close>. The check makes exactly the one
  \<open>info\<close> call. The last part states the same of the pairing alone.
\<close>

theorem returned_report_is_compatible:
  "(info_resp es (log @ [Info]) = Inr s \<and> \<not> (c = 9 \<and> s = 8) \<longrightarrow>
      (\<exists>r. check_version_compatibility c es log = (Inr r, log @ [Info])
           \<and> compatible r \<and> message r \<noteq> [] \<and> client_version r = c \<and> server_version r = s)) \<and>
   (info_resp es (log @ [Info]) = Inr s \<and> c = 9 \<and> s = 8 \<longrightarrow>
      (\<exists>m. check_version_compatibility c es log = (Inl (ApiError m), log @ [Info]))) \<and>
   (fst (check_version_compatibility c es log) = Inr r \<longrightarrow>
      compatible r \<and> message r \<noteq> [] \<and> client_version r = c
      \<and> info_resp es (log @ [Info]) = Inr (server_version r)
      \<and> \<not> (c = 9 \<and> server_version r = 8)) \<and>
   (\<not> (c = 9 \<and> s = 8) \<longrightarrow>
      (\<exists>r. version_compatibility c s = Inr r
           \<and> compatible r \<and> message r \<noteq> [] \<and> client_version r = c \<and> server_version r = s))"
  by (intro conjI impI; (elim conjE)?;
      auto simp add: check_version_compatibility_def get_server_version_def client_info_def
        version_compatibility_def Let_def split: sum.splits if_splits)

theorem returned_report_is_compatible_witness:
  "check_version_compatibility 8 (demo_es\<lparr>info_resp := (\<lambda>log. Inr 9)\<rparr>) [] =
     (Inr \<lparr>client_version = 8, server_version = 9, compatible = True,
           message = ''elasticsearch-py 8.x is forward-compatible with Elasticsearch 9.x. ''
             @ ''Consider upgrading to 'elasticsearch>=9,<10' for full ES 9.x feature support.''\<rparr>,
      [Info])"
proof -
  have 1: "info_resp (demo_es\<lparr>info_resp := (\<lambda>log. Inr 9)\<rparr>) ([] @ [Info]) = Inr 9"
    "\<not> ((8::int) = 9 \<and> (9::int) = 8)"
    by simp_all
  from returned_report_is_compatible [where es = "demo_es\<lparr>info_resp := (\<lambda>log. Inr 9)\<rparr>"
      and log = "[]" and s = 9 and c = 8
      and r = "\<lparr>client_version = 8, server_version = 9, compatible = True, message = []\<rparr>"]
  obtain r where "check_version_compatibility 8 (demo_es\<lparr>info_resp := (\<lambda>log. Inr 9)\<rparr>) []
      = (Inr r, [] @ [Info])" "compatible r" "client_version r = 8" "server_version r = 9"
    using 1 by blast
  then show ?thesis
    by (simp add: check_version_compatibility_def get_server_version_def client_info_def
        version_compatibility_def str_int_digits)
qed

section \<open>State absent\<close>

text \<open>
  Claim C5. With state absent, when the listing succeeds and the name is not one of its
  keys, the invocation changes nothing: the result is \<open>changed = False\<close> without message
  or diff, and the listing is the only call made, so no delete is issued. This holds for
  roles and for users, in check mode or not.
\<close>

theorem absent_unlisted_is_noop:
  "(role_state rs = ''absent'' \<and> get_role_resp es (log @ [Get_role None]) = Inr all_roles
      \<and> role_name rs \<notin> dom all_roles \<longrightarrow>
    role_handle es rs log =
      (Inr \<lparr>changed = False, msg = None, diff = None\<rparr>, log @ [Get_role None])) \<and>
   (user_state us = ''absent'' \<and> get_user_resp es (log @ [Get_user None]) = Inr all_users
      \<and> user_name us \<notin> dom all_users \<longrightarrow>
    user_handle es us log =
      (Inr \<lparr>changed = False, msg = None, diff = None\<rparr>, log @ [Get_user None]))"
  by (intro conjI impI; (elim conjE)?;
      auto simp add: role_defs user_defs client_defs Let_def init_result_def)

theorem absent_unlisted_is_noop_witness:
  "role_handle demo_es (demo_role\<lparr>role_name := ''r2'', role_state := ''absent''\<rparr>) [] =
     (Inr \<lparr>changed = False, msg = None, diff = None\<rparr>, [Get_role None]) \<and>
   user_handle demo_es (demo_user\<lparr>user_name := ''u2'', user_state := ''absent''\<rparr>) [] =
     (Inr \<lparr>changed = False, msg = None, diff = None\<rparr>, [Get_user None])"
proof -
  note t = absent_unlisted_is_noop [where es = demo_es and log = "[]"
      and rs = "demo_role\<lparr>role_name := ''r2'', role_state := ''absent''\<rparr>"
      and us = "demo_user\<lparr>user_name := ''u2'', user_state := ''absent''\<rparr>"
      and all_roles = "[''r1'' \<mapsto> [''monitor'']]"
      and all_users = "[''u1'' \<mapsto> demo_pre_entry]"]
  show ?thesis using t by (simp add: demo_facts)
qed

text \<open>
  Claim C6. With state absent and check mode off, when the name is in the listing the
  delete call is issued. If its response has \<open>found\<close> false the result stays
  \<open>changed = False\<close> and is a result, not a failure; if \<open>found\<close> is true the result is
  \<open>changed = True\<close> with the message \<open>name has been deleted\<close>. This holds for roles and
  for users.
\<close>

theorem delete_reports_found:
  "(role_state rs = ''absent'' \<and> \<not> check_mode (role_module rs)
      \<and> get_role_resp es (log @ [Get_role None]) = Inr all_roles
      \<and> role_name rs \<in> dom all_roles
      \<and> delete_role_resp es (log @ [Get_role None, Delete_role (role_name rs)]) = Inr found \<longrightarrow>
    role_handle es rs log =
      (Inr (if found
            then \<lparr>changed = True, msg = Some (role_name rs @ '' has been deleted''), diff = None\<rparr>
            else \<lparr>changed = False, msg = None, diff = None\<rparr>),
       log @ [Get_role None, Delete_role (role_name rs)])) \<and>
   (user_state us = ''absent'' \<and> \<not> check_mode (user_module us)
      \<and> get_user_resp es (log @ [Get_user None]) = Inr all_users
      \<and> user_name us \<in> dom all_users
      \<and> delete_user_resp es (log @ [Get_user None, Delete_user (user_name us)]) = Inr found \<longrightarrow>
    user_handle es us log =
      (Inr (if found
            then \<lparr>changed = True, msg = Some (user_name us @ '' has been deleted''), diff = None\<rparr>
            else \<lparr>changed = False, msg = None, diff = None\<rparr>),
       log @ [Get_user None, Delete_user (user_name us)]))"
  by (intro conjI impI; (elim conjE)?;
      auto simp add: role_defs user_defs client_defs Let_def init_result_def)

theorem delete_reports_found_witness:
  "role_handle demo_es (demo_role\<lparr>role_state := ''absent''\<rparr>) [] =
     (Inr \<lparr>changed = True, msg = Some ''r1 has been deleted'', diff = None\<rparr>,
      [Get_role None, Delete_role ''r1'']) \<and>
   user_handle (demo_es\<lparr>delete_user_resp := (\<lambda>log. Inr False)\<rparr>)
       (demo_user\<lparr>user_state := ''absent''\<rparr>) [] =
     (Inr \<lparr>changed = False, msg = None, diff = None\<rparr>,
      [Get_user None, Delete_user ''u1''])"
proof -
  note t = delete_reports_found [where es = demo_es and log = "[]"
      and rs = "demo_role\<lparr>role_state := ''absent''\<rparr>"
      and all_roles = "[''r1'' \<mapsto> [''monitor'']]" and found = True,
      THEN conjunct1]
  note t' = delete_reports_found
     [where es = "demo_es\<lparr>delete_user_resp := (\<lambda>log. Inr False)\<rparr>" and log = "[]"
      and us = "demo_user\<lparr>user_state := ''absent''\<rparr>"
      and all_users = "[''u1'' \<mapsto> demo_pre_entry]" and found = False,
      THEN conjunct2]
  show ?thesis using t t' by (simp add: demo_facts)
qed

section \<open>State present\<close>

text \<open>
  Claim C7. With state present and check mode off, when the name is not in the listing
  (so nothing was fetched before the put) and the put answers \<open>created = False\<close>, the
  result is \<open>changed = False\<close> with no message, and the put is the last call: nothing is
  fetched afterwards and nothing is compared. This holds for roles and for users.
\<close>

theorem replaced_without_snapshot_is_unchanged:
  "(role_state rs = ''present'' \<and> \<not> check_mode (role_module rs)
      \<and> get_role_resp es (log @ [Get_role None]) = Inr all_roles
      \<and> role_name rs \<notin> dom all_roles
      \<and> put_role_resp es
           (log @ [Get_role None, Put_role (role_name rs) (cluster rs) (indices rs)]) = Inr False \<longrightarrow>
    role_handle es rs log =
      (Inr \<lparr>changed = False, msg = None, diff = None\<rparr>,
       log @ [Get_role None, Put_role (role_name rs) (cluster rs) (indices rs)])) \<and>
   (user_state us = ''present'' \<and> \<not> check_mode (user_module us)
      \<and> get_user_resp es (log @ [Get_user None]) = Inr all_users
      \<and> user_name us \<notin> dom all_users
      \<and> kwargs = \<lparr>kw_username = user_name us, kw_email = email us,
                    kw_full_name = full_name us, kw_enabled = enabled us,
                    kw_roles = roles us, kw_password = Some (password us)\<rparr>
      \<and> put_user_resp es (log @ [Get_user None, Put_user kwargs]) = Inr False \<longrightarrow>
    user_handle es us log =
      (Inr \<lparr>changed = False, msg = None, diff = None\<rparr>,
       log @ [Get_user None, Put_user kwargs]))"
  by (intro conjI impI; (elim conjE)?;
      auto simp add: role_defs user_defs client_defs Let_def init_result_def)

theorem replaced_without_snapshot_is_unchanged_witness:
  "role_handle demo_es (demo_role\<lparr>role_name := ''r2''\<rparr>) [] =
     (Inr \<lparr>changed = False, msg = None, diff = None\<rparr>,
      [Get_role None, Put_role ''r2'' (Some [''all'']) []]) \<and>
   user_handle demo_es (demo_user\<lparr>user_name := ''u2''\<rparr>) [] =
     (Inr \<lparr>changed = False, msg = None, diff = None\<rparr>,
      [Get_user None,
       Put_user \<lparr>kw_username = ''u2'', kw_email = None, kw_full_name = None,
                 kw_enabled = True, kw_roles = [''b''], kw_password = Some ''p2''\<rparr>])"
proof -
  note t = replaced_without_snapshot_is_unchanged [where es = demo_es and log = "[]"
      and rs = "demo_role\<lparr>role_name := ''r2''\<rparr>"
      and us = "demo_user\<lparr>user_name := ''u2''\<rparr>"
      and all_roles = "[''r1'' \<mapsto> [''monitor'']]"
      and all_users = "[''u1'' \<mapsto> demo_pre_entry]"
      and kwargs = "\<lparr>kw_username = ''u2'', kw_email = None, kw_full_name = None,
                 kw_enabled = True, kw_roles = [''b''], kw_password = Some ''p2''\<rparr>"]
  show ?thesis using t by (simp add: demo_facts)
qed

text \<open>
  Claim C3. A user reconciliation with state present and check mode off, whose listing
  and pre-fetch succeed, makes exactly one put, after the reads. Its payload has no
  \<open>password\<close> key when the policy is \<open>on_create\<close> and the name was in the listing;
  in every other case (any other policy, such as \<open>always\<close>, or a name that was not in
  the listing) it carries the password the caller gave.
\<close>

theorem password_suppression:
  "user_state us = ''present'' \<and> \<not> check_mode (user_module us)
     \<and> get_user_resp es (log @ [Get_user None]) = Inr all_users
     \<and> (user_name us \<in> dom all_users \<longrightarrow>
          get_user_resp es (log @ [Get_user None, Get_user (Some (user_name us))]) = Inr pre_user) \<longrightarrow>
   (\<exists>rest.
      snd (user_handle es us log) =
        log @ Get_user None
          # (if user_name us \<in> dom all_users then [Get_user (Some (user_name us))] else [])
          @ Put_user \<lparr>kw_username = user_name us, kw_email = email us,
                       kw_full_name = full_name us, kw_enabled = enabled us,
                       kw_roles = roles us,
                       kw_password =
                         (if update_password us = ''on_create'' \<and> user_name us \<in> dom all_users
                          then None else Some (password us))\<rparr>
          # rest
      \<and> (\<forall>c \<in> set rest. \<not> is_mutation c))"
  by (auto simp add: user_defs client_defs Let_def split: sum.splits option.splits)

theorem password_suppression_witness:
  "snd (user_handle demo_es demo_user []) =
     [Get_user None, Get_user (Some ''u1''),
      Put_user \<lparr>kw_username = ''u1'', kw_email = None, kw_full_name = None,
                kw_enabled = True, kw_roles = [''b''], kw_password = None\<rparr>,
      Get_user (Some ''u1'')] \<and>
   snd (user_handle demo_es (demo_user\<lparr>update_password := ''always''\<rparr>) []) =
     [Get_user None, Get_user (Some ''u1''),
      Put_user \<lparr>kw_username = ''u1'', kw_email = None, kw_full_name = None,
                kw_enabled = True, kw_roles = [''b''], kw_password = Some ''p2''\<rparr>,
      Get_user (Some ''u1'')] \<and>
   snd (user_handle demo_es (demo_user\<lparr>user_name := ''u2''\<rparr>) []) =
     [Get_user None,
      Put_user \<lparr>kw_username = ''u2'', kw_email = None, kw_full_name = None,
                kw_enabled = True, kw_roles = [''b''], kw_password = Some ''p2''\<rparr>]"
proof -
  note a = password_suppression [where es = demo_es and log = "[]" and us = demo_user
      and all_users = "[''u1'' \<mapsto> demo_pre_entry]"
      and pre_user = "[''u1'' \<mapsto> demo_pre_entry]"]
  note b = password_suppression [where es = demo_es and log = "[]"
      and us = "demo_user\<lparr>update_password := ''always''\<rparr>"
      and all_users = "[''u1'' \<mapsto> demo_pre_entry]"
      and pre_user = "[''u1'' \<mapsto> demo_pre_entry]"]
  note c = password_suppression [where es = demo_es and log = "[]"
      and us = "demo_user\<lparr>user_name := ''u2''\<rparr>"
      and all_users = "[''u1'' \<mapsto> demo_pre_entry]"
      and pre_user = "[''u1'' \<mapsto> demo_pre_entry]"]
  have 1: "\<exists>rest. snd (user_handle demo_es demo_user []) =
     [Get_user None, Get_user (Some ''u1''),
      Put_user \<lparr>kw_username = ''u1'', kw_email = None, kw_full_name = None,
                kw_enabled = True, kw_roles = [''b''], kw_password = None\<rparr>] @ rest"
    using a by (auto simp add: demo_facts)
  have 2: "\<exists>rest. snd (user_handle demo_es (demo_user\<lparr>update_password := ''always''\<rparr>) []) =
     [Get_user None, Get_user (Some ''u1''),
      Put_user \<lparr>kw_username = ''u1'', kw_email = None, kw_full_name = None,
                kw_enabled = True, kw_roles = [''b''], kw_password = Some ''p2''\<rparr>] @ rest"
    using b by (auto simp add: demo_facts)
  have 3: "\<exists>rest. snd (user_handle demo_es (demo_user\<lparr>user_name := ''u2''\<rparr>) []) =
     [Get_user None,
      Put_user \<lparr>kw_username = ''u2'', kw_email = None, kw_full_name = None,
                kw_enabled = True, kw_roles = [''b''], kw_password = Some ''p2''\<rparr>] @ rest"
    using c by (auto simp add: demo_facts)
  show ?thesis using 1 2 3
    by (simp add: user_defs client_defs Let_def init_result_def demo_facts raw_get_def
        demo_entries_differ)
qed

text \<open>
  Claim C4. When a user reconciliation reaches the comparison (the name was listed and
  fetched, the put answered \<open>created = False\<close>, the user was fetched again), \<open>changed\<close>
  is true exactly when the two entries of the user differ in one of \<open>roles\<close>,
  \<open>full_name\<close>, \<open>email\<close>, \<open>enabled\<close>, \<open>metadata\<close>, read with \<open>get\<close>. No other
  field of the snapshots, and nothing of the desired state, enters: snapshots that differ
  only in a credential hash give \<open>changed = False\<close>.
\<close>

theorem changed_from_compared_fields:
  "user_state us = ''present'' \<and> \<not> check_mode (user_module us)
     \<and> get_user_resp es (log @ [Get_user None]) = Inr all_users
     \<and> user_name us \<in> dom all_users
     \<and> get_user_resp es (log @ [Get_user None, Get_user (Some (user_name us))]) = Inr pre_user
     \<and> kwargs = \<lparr>kw_username = user_name us, kw_email = email us,
                   kw_full_name = full_name us, kw_enabled = enabled us,
                   kw_roles = roles us,
                   kw_password = (if update_password us = ''on_create'' then None
                                  else Some (password us))\<rparr>
     \<and> put_user_resp es
          (log @ [Get_user None, Get_user (Some (user_name us)), Put_user kwargs]) = Inr False
     \<and> get_user_resp es
          (log @ [Get_user None, Get_user (Some (user_name us)), Put_user kwargs,
                  Get_user (Some (user_name us))]) = Inr post_user
     \<and> pre_data = raw_get pre_user (user_name us)
     \<and> post_data = raw_get post_user (user_name us) \<longrightarrow>
   (\<exists>r. user_handle es us log =
          (Inr r, log @ [Get_user None, Get_user (Some (user_name us)), Put_user kwargs,
                         Get_user (Some (user_name us))])
      \<and> (changed r \<longleftrightarrow>
            dict_get pre_data ''roles'' \<noteq> dict_get post_data ''roles''
          \<or> dict_get pre_data ''full_name'' \<noteq> dict_get post_data ''full_name''
          \<or> dict_get pre_data ''email'' \<noteq> dict_get post_data ''email''
          \<or> dict_get pre_data ''enabled'' \<noteq> dict_get post_data ''enabled''
          \<or> dict_get pre_data ''metadata'' \<noteq> dict_get post_data ''metadata''))"
  by (auto simp add: user_defs client_defs Let_def init_result_def compare_dict_def
        compare_keys_def)

theorem changed_from_compared_fields_witness:
  "user_handle demo_es demo_user [] =
     (Inr \<lparr>changed = True, msg = Some ''u1 has been updated'',
           diff = Some (Str (Entry demo_pre_entry), Str (Entry demo_post_entry))\<rparr>,
      [Get_user None, Get_user (Some ''u1''),
       Put_user \<lparr>kw_username = ''u1'', kw_email = None, kw_full_name = None,
                 kw_enabled = True, kw_roles = [''b''], kw_password = None\<rparr>,
       Get_user (Some ''u1'')]) \<and>
   user_handle demo_es_rehash demo_user [] =
     (Inr \<lparr>changed = False, msg = None, diff = None\<rparr>,
      [Get_user None, Get_user (Some ''u1''),
       Put_user \<lparr>kw_username = ''u1'', kw_email = None, kw_full_name = None,
                 kw_enabled = True, kw_roles = [''b''], kw_password = None\<rparr>,
       Get_user (Some ''u1'')])"
proof -
  note a = changed_from_compared_fields [where es = demo_es and log = "[]" and us = demo_user
      and all_users = "[''u1'' \<mapsto> demo_pre_entry]"
      and pre_user = "[''u1'' \<mapsto> demo_pre_entry]"
      and post_user = "[''u1'' \<mapsto> demo_post_entry]"
      and pre_data = demo_pre_entry and post_data = demo_post_entry
      and kwargs = "\<lparr>kw_username = ''u1'', kw_email = None, kw_full_name = None,
                 kw_enabled = True, kw_roles = [''b''], kw_password = None\<rparr>"]
  note b = changed_from_compared_fields [where es = demo_es_rehash and log = "[]"
      and us = demo_user
      and all_users = "[''u1'' \<mapsto> demo_pre_entry(''password_hash'' \<mapsto> Some (Jstr ''h1''))]"
      and pre_user = "[''u1'' \<mapsto> demo_pre_entry(''password_hash'' \<mapsto> Some (Jstr ''h1''))]"
      and post_user = "[''u1'' \<mapsto> demo_pre_entry(''password_hash'' \<mapsto> Some (Jstr ''h2''))]"
      and pre_data = "demo_pre_entry(''password_hash'' \<mapsto> Some (Jstr ''h1''))"
      and post_data = "demo_pre_entry(''password_hash'' \<mapsto> Some (Jstr ''h2''))"
      and kwargs = "\<lparr>kw_username = ''u1'', kw_email = None, kw_full_name = None,
                 kw_enabled = True, kw_roles = [''b''], kw_password = None\<rparr>"]
  have 1: "\<exists>r. user_handle demo_es demo_user [] =
      (Inr r, [Get_user None, Get_user (Some ''u1''),
       Put_user \<lparr>kw_username = ''u1'', kw_email = None, kw_full_name = None,
                 kw_enabled = True, kw_roles = [''b''], kw_password = None\<rparr>,
       Get_user (Some ''u1'')]) \<and> changed r"
    using a by (simp add: demo_facts raw_get_def demo_entry_values)
  have 2: "\<exists>r. user_handle demo_es_rehash demo_user [] =
      (Inr r, [Get_user None, Get_user (Some ''u1''),
       Put_user \<lparr>kw_username = ''u1'', kw_email = None, kw_full_name = None,
                 kw_enabled = True, kw_roles = [''b''], kw_password = None\<rparr>,
       Get_user (Some ''u1'')]) \<and> \<not> changed r"
    using b by (simp add: demo_facts demo_rehash_facts raw_get_def demo_entry_values)
  show ?thesis using 1 2
    by (auto simp add: user_defs client_defs Let_def init_result_def demo_facts
        demo_rehash_facts raw_get_def split: if_splits)
qed

text \<open>
  Claim C8 says that the diff of an update holds the comparable projections of the two
  snapshots. For a user the code passes the whole entry of the user to \<open>str\<close>, not the
  dict of the five compared keys: here the entry before has a \<open>username\<close> key, which the
  projection has not.
\<close>

theorem user_diff_is_not_projection_counterexample:
  "fst (user_handle demo_es demo_user []) \<noteq>
     Inr \<lparr>changed = True, msg = Some ''u1 has been updated'',
          diff = Some (Str (Entry (map_of (compare_dict demo_pre_entry))),
                       Str (Entry (map_of (compare_dict demo_post_entry))))\<rparr>"
proof -
  have "demo_pre_entry \<noteq> map_of (compare_dict demo_pre_entry)"
    using demo_username by (metis option.distinct(1))
  then show ?thesis by (simp add: demo_user_run)
qed

text \<open>
  Claim C8, amended. When a reconciliation with check mode off reaches the comparison and
  finds the two sides unequal (for a role the two responses of \<open>get\<close>, for a user the
  dicts of the five compared keys), the result is \<open>changed = True\<close> with the message
  \<open>name has been updated\<close>. If diff output was requested, the diff is \<open>str\<close> of what was
  fetched before and after: for a role the whole response, for a user the whole entry of
  the user, with every field it has. Without the request there is no diff. In every
  invocation, a result with a diff was made with diff output requested and has
  \<open>changed = True\<close>.
\<close>

theorem update_reports_diff_of_fetched_records:
  "(role_state rs = ''present'' \<and> \<not> check_mode (role_module rs)
      \<and> get_role_resp es (log @ [Get_role None]) = Inr all_roles
      \<and> role_name rs \<in> dom all_roles
      \<and> get_role_resp es (log @ [Get_role None, Get_role (Some (role_name rs))]) = Inr pre_role
      \<and> put = Put_role (role_name rs) (cluster rs) (indices rs)
      \<and> put_role_resp es (log @ [Get_role None, Get_role (Some (role_name rs)), put]) = Inr False
      \<and> get_role_resp es
           (log @ [Get_role None, Get_role (Some (role_name rs)), put,
                   Get_role (Some (role_name rs))]) = Inr post_role
      \<and> pre_role \<noteq> post_role \<longrightarrow>
    role_handle es rs log =
      (Inr \<lparr>changed = True, msg = Some (role_name rs @ '' has been updated''),
            diff = (if diff_mode (role_module rs) then Some (Str pre_role, Str post_role)
                    else None)\<rparr>,
       log @ [Get_role None, Get_role (Some (role_name rs)), put,
              Get_role (Some (role_name rs))])) \<and>
   (user_state us = ''present'' \<and> \<not> check_mode (user_module us)
      \<and> get_user_resp es (log @ [Get_user None]) = Inr all_users
      \<and> user_name us \<in> dom all_users
      \<and> get_user_resp es (log @ [Get_user None, Get_user (Some (user_name us))]) = Inr pre_user
      \<and> uput = Put_user \<lparr>kw_username = user_name us, kw_email = email us,
                   kw_full_name = full_name us, kw_enabled = enabled us,
                   kw_roles = roles us,
                   kw_password = (if update_password us = ''on_create'' then None
                                  else Some (password us))\<rparr>
      \<and> put_user_resp es
           (log @ [Get_user None, Get_user (Some (user_name us)), uput]) = Inr False
      \<and> get_user_resp es
           (log @ [Get_user None, Get_user (Some (user_name us)), uput,
                   Get_user (Some (user_name us))]) = Inr post_user
      \<and> pre_data = raw_get pre_user (user_name us)
      \<and> post_data = raw_get post_user (user_name us)
      \<and> compare_dict pre_data \<noteq> compare_dict post_data \<longrightarrow>
    user_handle es us log =
      (Inr \<lparr>changed = True, msg = Some (user_name us @ '' has been updated''),
            diff = (if diff_mode (user_module us)
                    then Some (Str (Entry pre_data), Str (Entry post_data)) else None)\<rparr>,
       log @ [Get_user None, Get_user (Some (user_name us)), uput,
              Get_user (Some (user_name us))])) \<and>
   (fst (role_handle es rs log) = Inr r \<and> diff r \<noteq> None \<longrightarrow>
      diff_mode (role_module rs) \<and> changed r) \<and>
   (fst (user_handle es us log) = Inr ur \<and> diff ur \<noteq> None \<longrightarrow>
      diff_mode (user_module us) \<and> changed ur)"
proof (intro conjI impI; (elim conjE)?)
  show "diff_mode (role_module rs)" "changed r"
    if "fst (role_handle es rs log) = Inr r" "diff r \<noteq> None"
    using that
    by (auto simp add: role_defs client_defs Let_def init_result_def
        split: sum.splits if_splits option.splits)
  show "diff_mode (user_module us)" "changed ur"
    if "fst (user_handle es us log) = Inr ur" "diff ur \<noteq> None"
    using that
    by (auto simp add: user_defs client_defs Let_def init_result_def
        split: sum.splits if_splits option.splits)
qed (auto simp add: role_defs user_defs client_defs Let_def init_result_def)

theorem update_reports_diff_of_fetched_records_witness:
  "role_handle demo_es demo_role [] =
     (Inr \<lparr>changed = True, msg = Some ''r1 has been updated'',
           diff = Some (Str [''r1'' \<mapsto> [''monitor'']], Str [''r1'' \<mapsto> [''all'']])\<rparr>,
      [Get_role None, Get_role (Some ''r1''), Put_role ''r1'' (Some [''all'']) [],
       Get_role (Some ''r1'')]) \<and>
   user_handle demo_es demo_user [] =
     (Inr \<lparr>changed = True, msg = Some ''u1 has been updated'',
           diff = Some (Str (Entry demo_pre_entry), Str (Entry demo_post_entry))\<rparr>,
      [Get_user None, Get_user (Some ''u1''),
       Put_user \<lparr>kw_username = ''u1'', kw_email = None, kw_full_name = None,
                 kw_enabled = True, kw_roles = [''b''], kw_password = None\<rparr>,
       Get_user (Some ''u1'')])"
proof -
  have ne: "[''r1'' \<mapsto> [''monitor'']] \<noteq> [''r1'' \<mapsto> [''all'']]"
  proof
    assume "[''r1'' \<mapsto> [''monitor'']] = [''r1'' \<mapsto> [''all'']]"
    from map_upd_eqD1 [OF this] show False by simp
  qed
  note t = update_reports_diff_of_fetched_records [where es = demo_es and log = "[]"
      and rs = demo_role and us = demo_user
      and all_roles = "[''r1'' \<mapsto> [''monitor'']]"
      and pre_role = "[''r1'' \<mapsto> [''monitor'']]"
      and post_role = "[''r1'' \<mapsto> [''all'']]"
      and put = "Put_role ''r1'' (Some [''all'']) []"
      and all_users = "[''u1'' \<mapsto> demo_pre_entry]"
      and pre_user = "[''u1'' \<mapsto> demo_pre_entry]"
      and post_user = "[''u1'' \<mapsto> demo_post_entry]"
      and pre_data = demo_pre_entry and post_data = demo_post_entry
      and uput = "Put_user \<lparr>kw_username = ''u1'', kw_email = None, kw_full_name = None,
                 kw_enabled = True, kw_roles = [''b''], kw_password = None\<rparr>"
      and r = "\<lparr>changed = False, msg = None, diff = None\<rparr>"
      and ur = "\<lparr>changed = False, msg = None, diff = None\<rparr>"]
  show ?thesis using t ne demo_entries_differ
    by (simp add: demo_facts raw_get_def)
qed

section \<open>The version check and the reconcilers\<close>

lemma role_handle_no_info:
  "Info \<in> set (snd (role_handle es self log)) \<Longrightarrow> Info \<in> set log"
  by (auto simp add: role_defs client_defs Let_def split: sum.splits if_splits option.splits)

lemma user_handle_no_info:
  "Info \<in> set (snd (user_handle es self log)) \<Longrightarrow> Info \<in> set log"
  by (auto simp add: user_defs client_defs Let_def split: sum.splits if_splits option.splits)

lemma role_init_no_info: "Info \<notin> set (snd (role_init h conn rs))"
  using role_handle_no_info [of _ rs "[]"]
  by (auto simp add: role_init_def split: sum.splits exn.splits)

lemma user_init_no_info: "Info \<notin> set (snd (user_init h conn us))"
  using user_handle_no_info [of _ us "[]"]
  by (auto simp add: user_init_def split: sum.splits exn.splits)

text \<open>
  Claim C9 says that every invocation runs the version check before its first call on
  the directory, and stops when the check fails. Here the client is of major version 9
  and the server of major version 8, for which the check raises \<open>ApiError\<close>; the
  invocation of \<open>Role\<close> with state absent nevertheless lists the roles and deletes
  \<open>r1\<close>, and its log holds no \<open>info\<close> call.
\<close>

theorem version_check_not_run_counterexample:
  "role_init True (Inr demo_es) (demo_role\<lparr>role_state := ''absent''\<rparr>) =
     (Inr \<lparr>changed = True, msg = Some ''r1 has been deleted'', diff = None\<rparr>,
      [Get_role None, Delete_role ''r1'']) \<and>
   check_version_compatibility 9 demo_es [] =
     (Inl (ApiError
       (''Incompatible versions: elasticsearch-py 9.x cannot connect to Elasticsearch 8.x. ''
        @ ''Install 'elasticsearch>=8,<9' or upgrade your Elasticsearch server to 9.x first.'')),
      [Info])"
  by (simp add: role_init_def new_client_basic_auth_def check_elasticsearch_import_def
      role_defs client_defs Let_def init_result_def demo_defs
      check_version_compatibility_def get_server_version_def version_compatibility_def
      str_int_digits)

text \<open>
  Claim C9, amended. No invocation of \<open>Role\<close> or \<open>User\<close> runs the version check: the
  log of an invocation never holds the \<open>info\<close> call by which the check reads the server
  version. What runs before the first call on the directory is the client factory: when
  the library is missing, or the constructor raises, the invocation fails with no call
  made (through \<open>fail_json\<close> for an \<open>ApiError\<close>, with the exception otherwise);
  when the factory succeeds, the invocation is exactly \<open>handle\<close> on the new client.
  The version check is an operation of its own, which makes one \<open>info\<close> call when
  it is invoked.
\<close>

theorem reconcilers_never_query_version:
  "Info \<notin> set (snd (role_init h conn rs)) \<and>
   Info \<notin> set (snd (user_init h conn us)) \<and>
   (\<not> h \<longrightarrow>
      (\<exists>m. check_elasticsearch_import h = Inl (ApiError m)
          \<and> role_init h conn rs = (Inl (Fail_json m), [])
          \<and> user_init h conn us = (Inl (Fail_json m), []))) \<and>
   (h \<and> conn = Inl (ApiError m) \<longrightarrow>
      role_init h conn rs = (Inl (Fail_json m), [])
      \<and> user_init h conn us = (Inl (Fail_json m), [])) \<and>
   (h \<and> conn = Inl (Exception m) \<longrightarrow>
      role_init h conn rs = (Inl (Uncaught (Exception m)), [])
      \<and> user_init h conn us = (Inl (Uncaught (Exception m)), [])) \<and>
   (h \<and> conn = Inr es \<longrightarrow>
      role_init h conn rs = role_handle es rs []
      \<and> user_init h conn us = user_handle es us []) \<and>
   snd (check_version_compatibility c es log) = log @ [Info]"
  using role_init_no_info [of h conn rs] user_init_no_info [of h conn us]
  by (intro conjI impI; (elim conjE)?;
      auto simp add: role_init_def user_init_def new_client_basic_auth_def
        check_elasticsearch_import_def check_version_compatibility_def
        get_server_version_def client_info_def Let_def split: sum.splits)

theorem reconcilers_never_query_version_witness:
  "role_init False (Inr demo_es) demo_role =
     (Inl (Fail_json
        (''The 'elasticsearch' Python library is required. ''
         @ ''Install it with: pip install 'elasticsearch>=8,<9' (for ES 8.x) ''
         @ ''or 'elasticsearch>=9,<10' (for ES 9.x)'')), []) \<and>
   role_init True (Inr demo_es) demo_role = role_handle demo_es demo_role [] \<and>
   user_init True
       (Inl (Exception ''no such file'') :: exn + (string list, jv, string list) elasticsearch)
       demo_user =
     (Inl (Uncaught (Exception ''no such file'')), []) \<and>
   snd (check_version_compatibility 8 demo_es []) = [Info]"
proof -
  note a = reconcilers_never_query_version [where h = False and conn = "Inr demo_es"
      and rs = demo_role and us = demo_user and m = "[]" and es = demo_es and c = 8 and log = "[]"]
  note b = reconcilers_never_query_version [where h = True and conn = "Inr demo_es"
      and rs = demo_role and us = demo_user and m = "[]" and es = demo_es and c = 8 and log = "[]"]
  note c = reconcilers_never_query_version
      [where h = True and conn = "Inl (Exception ''no such file'')"
       and rs = demo_role and us = demo_user and m = "''no such file''" and es = demo_es
       and c = 8 and log = "[]"]
  have 1: "role_init False (Inr demo_es) demo_role =
     (Inl (Fail_json
        (''The 'elasticsearch' Python library is required. ''
         @ ''Install it with: pip install 'elasticsearch>=8,<9' (for ES 8.x) ''
         @ ''or 'elasticsearch>=9,<10' (for ES 9.x)'')), [])"
    using a by (simp add: check_elasticsearch_import_def)
  have 2: "role_init True (Inr demo_es) demo_role = role_handle demo_es demo_role []"
    "snd (check_version_compatibility 8 demo_es []) = [Info]"
    using b by simp_all
  have 3: "user_init True
       (Inl (Exception ''no such file'') :: exn + (string list, jv, string list) elasticsearch)
       demo_user = (Inl (Uncaught (Exception ''no such file'')), [])"
    using c by simp
  show ?thesis using 1 2 3 by blast
qed

end
